theory Spec2Isabelle
  imports Main
begin

section \<open>Constants of consumer.h\<close>

definition PUBLISH_CHANNEL :: string where
  "PUBLISH_CHANNEL = ''messages:published''"

definition CONSUMER_GROUP :: string where
  "CONSUMER_GROUP = ''test_group''"

definition STREAM_KEY :: string where
  "STREAM_KEY = ''messages:processed''"

definition MAX_PROCESSED_MSGS :: nat where
  "MAX_PROCESSED_MSGS = 10000"

section \<open>Values of the two client libraries\<close>

text \<open>
  A \<open>json_t *\<close> is a \<open>json option\<close>: \<open>None\<close> is the NULL pointer. Objects keep their
  members in insertion order. A C string is a \<open>string\<close> (the bytes before the terminator),
  a \<open>char *\<close> that may be NULL is a \<open>string option\<close>.
\<close>

datatype json =
    JSON_NULL
  | JSON_TRUE
  | JSON_FALSE
  | JSON_INTEGER int
  | JSON_REAL string
  | JSON_STRING string
  | JSON_ARRAY "json list"
  | JSON_OBJECT "(string \<times> json) list"

datatype redisReply =
    REDIS_REPLY_STRING string
  | REDIS_REPLY_ARRAY "redisReply list"
  | REDIS_REPLY_INTEGER int
  | REDIS_REPLY_NIL
  | REDIS_REPLY_STATUS string
  | REDIS_REPLY_ERROR string

record redisContext =
  err :: int
  errstr :: string

text \<open>
  An argument of a formatted command: \<open>Text\<close> for a literal word or a \<open>%s\<close>,
  \<open>Decimal\<close> for a \<open>%d\<close>.
\<close>

datatype arg = Text string | Decimal int

text \<open>What the reply reader finds at the front of its buffer.\<close>

datatype parsed = Incomplete | ProtocolError | Frame redisReply string

text \<open>
  The functions of jansson and hiredis that the consumer calls and whose results depend
  on code outside the repository are parameters of the model: the JSON decoder and the
  compact encoder (for an array or an object), the UTF-8 check that \<open>json_string\<close>
  applies to its argument, the round trip of a command to the server (the reply pointer
  and the context after the call) and the decoder of the reply reader.
\<close>

record library =
  json_loads :: "string \<Rightarrow> json option"
  json_dumps :: "json \<Rightarrow> string option"
  utf8_check_string :: "string \<Rightarrow> bool"
  redisCommand :: "redisContext \<Rightarrow> arg list \<Rightarrow> redisReply option \<times> redisContext"
  reader_decode :: "string \<Rightarrow> parsed"

text \<open>\<open>json_loads\<close> on a NULL input returns NULL.\<close>

definition loads :: "library \<Rightarrow> string option \<Rightarrow> json option" where
  "loads lib input = (case input of None \<Rightarrow> None | Some text \<Rightarrow> json_loads lib text)"

text \<open>\<open>json_dumps\<close> with \<open>JSON_COMPACT\<close>: NULL unless the value is an array or an object.\<close>

definition dumps :: "library \<Rightarrow> json option \<Rightarrow> string option" where
  "dumps lib j =
     (case j of
        Some (JSON_ARRAY xs) \<Rightarrow> json_dumps lib (JSON_ARRAY xs)
      | Some (JSON_OBJECT kvs) \<Rightarrow> json_dumps lib (JSON_OBJECT kvs)
      | _ \<Rightarrow> None)"

definition json_object_get :: "json option \<Rightarrow> string \<Rightarrow> json option" where
  "json_object_get j key =
     (case j of Some (JSON_OBJECT kvs) \<Rightarrow> map_of kvs key | _ \<Rightarrow> None)"

definition json_string :: "library \<Rightarrow> string \<Rightarrow> json option" where
  "json_string lib v = (if utf8_check_string lib v then Some (JSON_STRING v) else None)"

fun object_put :: "string \<Rightarrow> json \<Rightarrow> (string \<times> json) list \<Rightarrow> (string \<times> json) list" where
  "object_put key v [] = [(key, v)]"
| "object_put key v ((k, old) # kvs) =
     (if k = key then (key, v) # kvs else (k, old) # object_put key v kvs)"

text \<open>
  \<open>json_object_set_new\<close> changes nothing (and returns -1, which the consumer ignores)
  when the target is not an object or the value is NULL. The result is the target after
  the call.
\<close>

definition json_object_set_new :: "json option \<Rightarrow> string \<Rightarrow> json option \<Rightarrow> json option" where
  "json_object_set_new j key v =
     (case j of
        Some (JSON_OBJECT kvs) \<Rightarrow>
          (case v of None \<Rightarrow> j | Some x \<Rightarrow> Some (JSON_OBJECT (object_put key x kvs)))
      | _ \<Rightarrow> j)"

section \<open>What the consumer prints and sends\<close>

text \<open>One constructor per \<open>printf\<close>, \<open>fprintf\<close> and command of consumer.c.\<close>

datatype event =
    ReceivedMessage "string option"
  | ErrorParsingJSON
  | ErrorMessageIdMissing
  | ParsedMessageId string
  | FailedToParse
  | SkippingProcessed int string
  | ErrorSerializing string
  | ProcessedMessage string
  | RedisCommand "arg list"
  | ErrorStoring string
  | WarningLimitReached
  | ProcessedPerSecond int
  | ErrorReadingReply string
  | ConnectionClosed
  | ErrorReadingSocket
  | InvalidGroupSize
  | InvalidConsumerId
  | TooManyConsumers int
  | Usage
  | MandatoryMissing
  | ErrorAllocatingContext
  | ErrorConnecting string
  | ErrorCreatingGroup string
  | ErrorCreatingReader
  | ErrorSubscribing string
  | SubscribedTo "string option"
  | CleaningUpContext
  | CleaningUpState

section \<open>The table of processed identifiers\<close>

text \<open>
  \<open>consumerState\<close>: the slots \<open>0 ..< processed_message_count\<close> of the array, each as
  \<open>strcmp\<close> reads it, in order; the count is the length of the list.
\<close>

record consumerState =
  processed_message_ids :: "string list"

definition processed_message_count :: "consumerState \<Rightarrow> nat" where
  "processed_message_count state = length (processed_message_ids state)"

definition createConsumerState :: consumerState where
  "createConsumerState = \<lparr>processed_message_ids = []\<rparr>"

fun scan :: "string list \<Rightarrow> string \<Rightarrow> int" where
  "scan [] message_id = 0"
| "scan (stored # rest) message_id = (if stored = message_id then 1 else scan rest message_id)"

definition isMessageProcessed :: "consumerState \<Rightarrow> string \<Rightarrow> int" where
  "isMessageProcessed state message_id = scan (processed_message_ids state) message_id"

text \<open>
  \<open>addProcessedMessage\<close> allocates \<open>strlen(message_id) + 1\<close> bytes and copies with
  \<open>strncpy(..., message_id, strlen(message_id))\<close>: exactly the characters, no
  terminator, into memory that \<open>malloc\<close> does not initialise. What \<open>strcmp\<close> later
  reads from the slot is the identifier followed by \<open>residue\<close>, the bytes that happen
  to follow the copy up to the first zero byte (\<open>[]\<close> when the byte after the copy is
  zero).
\<close>

definition addProcessedMessage ::
  "consumerState \<Rightarrow> string \<Rightarrow> string \<Rightarrow> consumerState \<times> event list" where
  "addProcessedMessage state residue message_id =
     (if processed_message_count state < MAX_PROCESSED_MSGS
      then (state\<lparr>processed_message_ids := processed_message_ids state @ [message_id @ residue]\<rparr>, [])
      else (state, [WarningLimitReached]))"

text \<open>A sequence of insertions, each with the residue its allocation holds.\<close>

fun add_all :: "consumerState \<Rightarrow> (string \<times> string) list \<Rightarrow> consumerState \<times> event list" where
  "add_all state [] = (state, [])"
| "add_all state ((residue, message_id) # rest) =
     (let (state', warned) = addProcessedMessage state residue message_id;
          (state'', later) = add_all state' rest
      in (state'', warned @ later))"

section \<open>Decoding and forwarding one message\<close>

text \<open>
  \<open>parseMessage\<close> returns its status, the content of \<open>message->message_id\<close> after the
  call and what it printed. \<open>slot\<close> is the content of that buffer before the call: the
  caller's \<open>parsed_message\<close> is an uninitialised local, and the failure paths do not
  write it. On success the first \<open>sizeof(message->message_id) - 1 = 36\<close> characters
  are copied and terminated.
\<close>

definition parseMessage :: "library \<Rightarrow> string option \<Rightarrow> string \<Rightarrow> int \<times> string \<times> event list" where
  "parseMessage lib json_text slot =
     (case loads lib json_text of
        None \<Rightarrow> (- 1, slot, [ErrorParsingJSON])
      | Some root \<Rightarrow>
          (case json_object_get (Some root) ''message_id'' of
             Some (JSON_STRING v) \<Rightarrow> (0, take 36 v, [])
           | _ \<Rightarrow> (- 1, slot, [ErrorMessageIdMissing])))"

definition xadd :: "string \<Rightarrow> int \<Rightarrow> arg list" where
  "xadd message_id consumer_id =
     [Text ''XADD'', Text STREAM_KEY, Text ''*'',
      Text ''message_id'', Text message_id, Text ''consumer_id'', Decimal consumer_id]"

text \<open>
  \<open>processMessage\<close>: the context and the table after the call, and the trace of what
  was printed and sent. A failed \<open>parseMessage\<close> is reported and the function goes on
  with the buffer as it was.
\<close>

definition processMessage ::
  "library \<Rightarrow> redisContext \<Rightarrow> consumerState \<Rightarrow> string \<Rightarrow> string \<Rightarrow> string option \<Rightarrow> int
     \<Rightarrow> redisContext \<times> consumerState \<times> event list" where
  "processMessage lib c state slot residue message consumer_id =
     (let json_msg = loads lib message;
          (status, message_id, printed) = parseMessage lib message slot;
          head = [ReceivedMessage message] @ printed @
                 (if status = 0 then [ParsedMessageId message_id] else [FailedToParse])
      in if isMessageProcessed state message_id \<noteq> 0
         then (c, state, head @ [SkippingProcessed consumer_id message_id])
         else
           (let with_id = json_object_set_new json_msg ''message_id'' (json_string lib message_id);
                with_consumer = json_object_set_new with_id ''consumer_id''
                                  (Some (JSON_INTEGER consumer_id))
            in case dumps lib with_consumer of
                 None \<Rightarrow> (c, state, head @ [ErrorSerializing message_id])
               | Some modified_message \<Rightarrow>
                   (let (reply, c') = redisCommand lib c (xadd message_id consumer_id);
                        sent = head @ [ProcessedMessage modified_message,
                                       RedisCommand (xadd message_id consumer_id)]
                    in if reply = None \<or> err c' \<noteq> 0
                       then (c', state, sent @ [ErrorStoring (errstr c')])
                       else (let (state', warned) = addProcessedMessage state residue message_id
                             in (c', state', sent @ warned)))))"

section \<open>The command line\<close>

text \<open>
  One value per return of \<open>getopt_long\<close>, in the order of the command line; an option
  with a numeric argument carries \<open>atoi(optarg)\<close>. \<open>Opt_question\<close> is the character
  \<open>?\<close> (\<open>--help\<close>, and what \<open>getopt_long\<close> returns for an option it does not know);
  \<open>Opt_other\<close> is any other return value.
\<close>

datatype getopt = Opt_g int | Opt_c int | Opt_h string | Opt_p int | Opt_v | Opt_question | Opt_other

record config =
  consumer_group_size :: int
  consumer_id :: int
  redis_host :: string
  redis_port :: int
  verbose :: int

definition initial_config :: config where
  "initial_config =
     \<lparr>consumer_group_size = - 1, consumer_id = - 1, redis_host = ''localhost'',
      redis_port = 6379, verbose = 0\<rparr>"

text \<open>
  The \<open>while\<close> loop over the options. \<open>Inl status\<close> is \<open>exit(status)\<close>, with what was
  printed before it; \<open>Inr\<close> the variables when the options are used up.
\<close>

fun getopt_loop :: "config \<Rightarrow> getopt list \<Rightarrow> (int + config) \<times> event list" where
  "getopt_loop cfg [] = (Inr cfg, [])"
| "getopt_loop cfg (Opt_g v # rest) =
     (if v \<le> 0 then (Inl 1, [InvalidGroupSize, Usage])
      else getopt_loop (cfg\<lparr>consumer_group_size := v\<rparr>) rest)"
| "getopt_loop cfg (Opt_c v # rest) =
     (if v \<le> 0 then (Inl 1, [InvalidConsumerId, Usage])
      else if v > consumer_group_size cfg then (Inl 1, [TooManyConsumers (consumer_group_size cfg)])
      else getopt_loop (cfg\<lparr>consumer_id := v\<rparr>) rest)"
| "getopt_loop cfg (Opt_h host # rest) = getopt_loop (cfg\<lparr>redis_host := host\<rparr>) rest"
| "getopt_loop cfg (Opt_p v # rest) = getopt_loop (cfg\<lparr>redis_port := v\<rparr>) rest"
| "getopt_loop cfg (Opt_v # rest) = getopt_loop (cfg\<lparr>verbose := 1\<rparr>) rest"
| "getopt_loop cfg (Opt_question # rest) = (Inl 0, [Usage])"
| "getopt_loop cfg (Opt_other # rest) = (Inl 1, [Usage])"

definition parse_arguments :: "getopt list \<Rightarrow> (int + config) \<times> event list" where
  "parse_arguments opts =
     (case getopt_loop initial_config opts of
        (Inl status, printed) \<Rightarrow> (Inl status, printed)
      | (Inr cfg, printed) \<Rightarrow>
          (if consumer_group_size cfg = - 1 \<or> consumer_id cfg = - 1
           then (Inl 1, printed @ [MandatoryMissing, Usage])
           else (Inr cfg, printed)))"

text \<open>The options that set neither the group size nor the consumer id.\<close>

fun other_option :: "getopt \<Rightarrow> bool" where
  "other_option (Opt_h host) = True"
| "other_option (Opt_p v) = True"
| "other_option Opt_v = True"
| "other_option x = False"

section \<open>Connecting and subscribing\<close>

fun str :: "redisReply \<Rightarrow> string option" where
  "str (REDIS_REPLY_STRING s) = Some s"
| "str (REDIS_REPLY_STATUS s) = Some s"
| "str (REDIS_REPLY_ERROR s) = Some s"
| "str r = None"

text \<open>
  The subscription of \<open>main\<close>: \<open>Inl 1\<close> is \<open>exit(EXIT_FAILURE)\<close>, \<open>Inr\<close> the context
  with which \<open>main\<close> goes on.
\<close>

definition subscribe :: "library \<Rightarrow> redisContext \<Rightarrow> (int + redisContext) \<times> event list" where
  "subscribe lib c =
     (let (reply, c') = redisCommand lib c [Text ''SUBSCRIBE'', Text PUBLISH_CHANNEL]
      in if reply = None \<or> err c' \<noteq> 0 then (Inl 1, [ErrorSubscribing (errstr c')])
         else (case reply of
                 Some (REDIS_REPLY_ARRAY es) \<Rightarrow>
                   (if 3 \<le> length es then (Inr c', [SubscribedTo (str (es ! 1))]) else (Inr c', []))
               | _ \<Rightarrow> (Inr c', [])))"

section \<open>The read loop\<close>

text \<open>The reply reader: the bytes fed to it and not yet consumed.\<close>

type_synonym redisReader = string

datatype status = REDIS_OK | REDIS_ERR

definition redisReaderFeed :: "redisReader \<Rightarrow> string \<Rightarrow> redisReader" where
  "redisReaderFeed r bytes = r @ bytes"

definition redisReaderGetReply :: "library \<Rightarrow> redisReader \<Rightarrow> status \<times> redisReply option \<times> redisReader" where
  "redisReaderGetReply lib r =
     (case reader_decode lib r of
        Incomplete \<Rightarrow> (REDIS_OK, None, r)
      | ProtocolError \<Rightarrow> (REDIS_ERR, None, r)
      | Frame reply rest \<Rightarrow> (REDIS_OK, Some reply, rest))"

text \<open>The variables of \<open>main\<close> that live across iterations of \<open>while (1)\<close>.\<close>

record loop_state =
  conn :: redisContext
  reader :: redisReader
  consumer_state :: consumerState
  start_time :: int
  processed_messages :: int

text \<open>
  What one iteration takes from outside: the result of \<open>read\<close> and the buffer it
  filled, the time \<open>time(NULL)\<close> returns, and the two pieces of uninitialised memory
  that \<open>processMessage\<close> can read.
\<close>

record iteration =
  read_n :: int
  read_bytes :: string
  now :: int
  stack_slot :: string
  heap_residue :: string

text \<open>The body of \<open>if (res == REDIS_OK && reply)\<close>.\<close>

definition on_reply :: "library \<Rightarrow> int \<Rightarrow> loop_state \<Rightarrow> iteration \<Rightarrow> redisReply \<Rightarrow> loop_state \<times> event list" where
  "on_reply lib cid s i reply =
     (case reply of
        REDIS_REPLY_ARRAY es \<Rightarrow>
          (if 3 \<le> length es
           then (let (c', state', trace) =
                       processMessage lib (conn s) (consumer_state s)
                         (stack_slot i) (heap_residue i) (str (es ! 2)) cid;
                     counted = processed_messages s + 1
                 in if 3 \<le> now i - start_time s
                    then (s\<lparr>conn := c', consumer_state := state',
                             start_time := now i, processed_messages := 0\<rparr>,
                          trace @ [ProcessedPerSecond (counted div 3)])
                    else (s\<lparr>conn := c', consumer_state := state',
                             processed_messages := counted\<rparr>, trace))
           else (s, []))
      | _ \<Rightarrow> (s, []))"

text \<open>One iteration of \<open>while (1)\<close>: \<open>None\<close> is \<open>break\<close>.\<close>

definition loop_body :: "library \<Rightarrow> int \<Rightarrow> loop_state \<Rightarrow> iteration \<Rightarrow> loop_state option \<times> event list" where
  "loop_body lib cid s i =
     (if 0 < read_n i
      then (let (res, reply, r') =
                  redisReaderGetReply lib
                    (redisReaderFeed (reader s) (take (nat (read_n i)) (read_bytes i)))
            in case (if res = REDIS_OK then reply else None) of
                 Some rep \<Rightarrow>
                   (let (s', trace) = on_reply lib cid (s\<lparr>reader := r'\<rparr>) i rep in (Some s', trace))
               | None \<Rightarrow>
                   (if res = REDIS_ERR then (None, [ErrorReadingReply (errstr (conn s))])
                    else (Some (s\<lparr>reader := r'\<rparr>), [])))
      else if read_n i = 0 then (None, [ConnectionClosed])
      else (None, [ErrorReadingSocket]))"

text \<open>
  \<open>main\<close> from \<open>redisConnect\<close> to the first iteration. \<open>connection\<close> is what
  \<open>redisConnect\<close> returned, \<open>reader_created\<close> whether \<open>redisReaderCreate\<close> returned a
  reader, \<open>t0\<close> the first \<open>time(NULL)\<close>.
\<close>

definition startup ::
  "library \<Rightarrow> redisContext option \<Rightarrow> bool \<Rightarrow> int \<Rightarrow> (int + loop_state) \<times> event list" where
  "startup lib connection reader_created t0 =
     (case connection of
        None \<Rightarrow> (Inl 1, [ErrorAllocatingContext])
      | Some c \<Rightarrow>
          (if err c \<noteq> 0 then (Inl 1, [ErrorConnecting (errstr c)])
           else (let (reply, c1) =
                       redisCommand lib c
                         [Text ''XGROUP'', Text ''CREATE'', Text STREAM_KEY, Text CONSUMER_GROUP,
                          Text ''0'', Text ''MKSTREAM'']
                 in if reply = None \<or> err c1 \<noteq> 0 then (Inl 1, [ErrorCreatingGroup (errstr c1)])
                    else if \<not> reader_created then (Inl 1, [ErrorCreatingReader])
                    else (case subscribe lib c1 of
                            (Inl status, printed) \<Rightarrow> (Inl status, printed)
                          | (Inr c2, printed) \<Rightarrow>
                              (Inr \<lparr>conn = c2, reader = [], consumer_state = createConsumerState,
                                    start_time = t0, processed_messages = 0\<rparr>, printed)))))"

section \<open>Shutdown\<close>

text \<open>
  The two global pointers (\<open>None\<close> is NULL), the handles passed to \<open>redisFree\<close> and to
  \<open>freeConsumerState\<close> so far, what was printed, and the status once \<open>exit\<close> was called.
\<close>

record process =
  global_redis_context :: "nat option"
  global_consumer_state :: "nat option"
  redisFree_calls :: "nat list"
  freeConsumerState_calls :: "nat list"
  printed :: "event list"
  exit_status :: "int option"

definition free_context :: "process \<Rightarrow> process" where
  "free_context p =
     (case global_redis_context p of
        None \<Rightarrow> p
      | Some h \<Rightarrow> p\<lparr>redisFree_calls := redisFree_calls p @ [h],
                    printed := printed p @ [CleaningUpContext]\<rparr>)"

definition free_state :: "process \<Rightarrow> process" where
  "free_state p =
     (case global_consumer_state p of
        None \<Rightarrow> p
      | Some h \<Rightarrow> p\<lparr>freeConsumerState_calls := freeConsumerState_calls p @ [h],
                    printed := printed p @ [CleaningUpState]\<rparr>)"

definition shutdown :: "process \<Rightarrow> process" where
  "shutdown p = (free_state (free_context p))\<lparr>exit_status := Some 0\<rparr>"

text \<open>
  \<open>shutdown\<close> is the handler of SIGINT and SIGTERM and is also called by \<open>main\<close>
  after the loop. \<open>shutdown_steps k\<close> is an invocation that has run its first \<open>k\<close>
  statements; \<open>trigger\<close> delivers a termination trigger: a new invocation, unless the
  process has exited.
\<close>

fun shutdown_steps :: "nat \<Rightarrow> process \<Rightarrow> process" where
  "shutdown_steps 0 p = p"
| "shutdown_steps (Suc 0) p = free_context p"
| "shutdown_steps (Suc (Suc 0)) p = free_state (free_context p)"
| "shutdown_steps (Suc (Suc (Suc k))) p = shutdown p"

definition trigger :: "process \<Rightarrow> process" where
  "trigger p = (if exit_status p = None then shutdown p else p)"

section \<open>Reading a command and a trace\<close>

fun pairs :: "'a list \<Rightarrow> ('a \<times> 'a) list" where
  "pairs (field # v # rest) = (field, v) # pairs rest"
| "pairs rest = []"

text \<open>
  The record of an \<open>XADD key id field value ...\<close>: the field-value pairs after the
  first three arguments.
\<close>

definition stream_fields :: "arg list \<Rightarrow> (arg \<times> arg) list" where
  "stream_fields cmd = pairs (drop 3 cmd)"

fun received :: "event \<Rightarrow> bool" where
  "received (ReceivedMessage message) = True"
| "received e = False"

fun sending :: "event \<Rightarrow> bool" where
  "sending (RedisCommand args) = True"
| "sending e = False"

section \<open>Example inputs\<close>

text \<open>
  Concrete payloads, wire frames and library behaviour for the examples below. The
  example decoders agree with jansson and with the reply reader on the texts and
  buffers of the examples; they are not decoders of anything else.
\<close>

definition payload_a :: string where
  \<open>payload_a = ''{"message_id":"a","body":"x"}''\<close>

definition payload_1 :: string where
  \<open>payload_1 = ''{"message_id":"11111111-1111-1111-1111-111111111111-1"}''\<close>

definition payload_2 :: string where
  \<open>payload_2 = ''{"message_id":"11111111-1111-1111-1111-111111111111-2"}''\<close>

definition example_loads :: "string \<Rightarrow> json option" where
  "example_loads text =
     (if text = payload_a
      then Some (JSON_OBJECT [(''message_id'', JSON_STRING ''a''), (''body'', JSON_STRING ''x'')])
      else if text = payload_1
      then Some (JSON_OBJECT [(''message_id'', JSON_STRING ''11111111-1111-1111-1111-111111111111-1'')])
      else if text = payload_2
      then Some (JSON_OBJECT [(''message_id'', JSON_STRING ''11111111-1111-1111-1111-111111111111-2'')])
      else if text = ''{}'' then Some (JSON_OBJECT [])
      else None)"

definition example_dumps :: "json \<Rightarrow> string option" where
  \<open>example_dumps j =
     (if j = JSON_OBJECT [(''message_id'', JSON_STRING ''a''), (''body'', JSON_STRING ''x''),
                          (''consumer_id'', JSON_INTEGER 2)]
      then Some ''{"message_id":"a","body":"x","consumer_id":2}''
      else if j = JSON_OBJECT [(''message_id'', JSON_STRING ''11111111-1111-1111-1111-111111111111''),
                               (''consumer_id'', JSON_INTEGER 2)]
      then Some ''{"message_id":"11111111-1111-1111-1111-111111111111","consumer_id":2}''
      else if j = JSON_OBJECT [(''message_id'', JSON_STRING ''stale''), (''consumer_id'', JSON_INTEGER 2)]
      then Some ''{"message_id":"stale","consumer_id":2}''
      else None)\<close>

definition CRLF :: string where
  "CRLF = [CHR 0x0D, CHR 0x0A]"

text \<open>The frame of a message published with \<open>payload_a\<close>, as the server sends it.\<close>

definition wire_a :: string where
  "wire_a = ''*3'' @ CRLF @ ''$7'' @ CRLF @ ''message'' @ CRLF @
            ''$18'' @ CRLF @ ''messages:published'' @ CRLF @
            ''$29'' @ CRLF @ payload_a @ CRLF"

definition message_a :: redisReply where
  "message_a = REDIS_REPLY_ARRAY
     [REDIS_REPLY_STRING ''message'', REDIS_REPLY_STRING ''messages:published'',
      REDIS_REPLY_STRING payload_a]"

definition example_decode :: "string \<Rightarrow> parsed" where
  "example_decode buffer =
     (if take (length wire_a) buffer = wire_a
      then Frame message_a (drop (length wire_a) buffer)
      else Incomplete)"

text \<open>A library whose every command returns \<open>reply\<close> and leaves \<open>err = e\<close>.\<close>

definition example_library :: "redisReply option \<Rightarrow> int \<Rightarrow> library" where
  "example_library reply e =
     \<lparr>json_loads = example_loads, json_dumps = example_dumps,
      utf8_check_string = (\<lambda>v. True),
      redisCommand = (\<lambda>c args. (reply, c\<lparr>err := e\<rparr>)),
      reader_decode = example_decode\<rparr>"

definition connected :: redisContext where
  "connected = \<lparr>err = 0, errstr = []\<rparr>"

definition full_table :: consumerState where
  "full_table = \<lparr>processed_message_ids = replicate 10000 ''x''\<rparr>"

definition running :: process where
  "running =
     \<lparr>global_redis_context = Some 1, global_consumer_state = Some 2,
      redisFree_calls = [], freeConsumerState_calls = [], printed = [], exit_status = None\<rparr>"

text \<open>
  An identifier of 35 ASCII characters followed by a two-byte UTF-8 character: its first
  36 bytes end in the middle of that character and are not valid UTF-8. \<open>cut_library\<close>
  agrees with jansson on the payload that carries it; every command is accepted.
\<close>

definition id_cut :: string where
  "id_cut = ''11111111-1111-1111-1111-11111111111'' @ [CHR 0xC3, CHR 0xA9]"

definition payload_cut :: string where
  \<open>payload_cut = ''{"message_id":"'' @ id_cut @ ''"}''\<close>

definition cut_library :: library where
  \<open>cut_library =
     \<lparr>json_loads = (\<lambda>t. if t = payload_cut
                         then Some (JSON_OBJECT [(''message_id'', JSON_STRING id_cut)])
                         else None),
      json_dumps = (\<lambda>j. if j = JSON_OBJECT [(''message_id'', JSON_STRING id_cut),
                                               (''consumer_id'', JSON_INTEGER 2)]
                         then Some (''{"message_id":"'' @ id_cut @ ''","consumer_id":2}'')
                         else None),
      utf8_check_string = (\<lambda>v. v \<noteq> take 36 id_cut),
      redisCommand = (\<lambda>c args. (Some (REDIS_REPLY_STRING ''1-0''), c)),
      reader_decode = example_decode\<rparr>\<close>

section \<open>Facts about the model\<close>

lemmas json_defs = loads_def dumps_def json_object_get_def json_string_def json_object_set_new_def
lemmas table_defs = isMessageProcessed_def addProcessedMessage_def processed_message_count_def
  createConsumerState_def MAX_PROCESSED_MSGS_def
lemmas example_defs = example_library_def example_loads_def example_dumps_def payload_a_def
  payload_1_def payload_2_def connected_def
lemmas loop_defs = loop_body_def on_reply_def redisReaderGetReply_def redisReaderFeed_def
lemmas wire_defs = example_decode_def wire_a_def message_a_def CRLF_def

subsection \<open>The table\<close>

lemma scan_iff: "scan ids message_id = (if message_id \<in> set ids then 1 else 0)"
  by (induction ids) auto

lemma scan_append: "scan (ids @ [v]) v = 1"
  by (simp add: scan_iff)

lemma addProcessedMessage_bounded:
  "processed_message_count state \<le> MAX_PROCESSED_MSGS \<Longrightarrow>
     processed_message_count (fst (addProcessedMessage state residue message_id)) \<le> MAX_PROCESSED_MSGS"
  by (simp add: addProcessedMessage_def processed_message_count_def)

lemma addProcessedMessage_full:
  "MAX_PROCESSED_MSGS \<le> processed_message_count state \<Longrightarrow>
     addProcessedMessage state residue message_id = (state, [WarningLimitReached])"
  by (simp add: addProcessedMessage_def)

lemma addProcessedMessage_keeps:
  "isMessageProcessed state v = 1 \<Longrightarrow>
     isMessageProcessed (fst (addProcessedMessage state residue message_id)) v = 1"
  by (simp add: addProcessedMessage_def isMessageProcessed_def scan_iff split: if_splits)

lemma addProcessedMessage_terminated:
  "processed_message_count state < MAX_PROCESSED_MSGS \<Longrightarrow>
     isMessageProcessed (fst (addProcessedMessage state [] message_id)) message_id = 1"
  by (simp add: addProcessedMessage_def isMessageProcessed_def scan_iff)

lemma add_all_bounded:
  "processed_message_count state \<le> MAX_PROCESSED_MSGS \<Longrightarrow>
     processed_message_count (fst (add_all state xs)) \<le> MAX_PROCESSED_MSGS"
proof (induction xs arbitrary: state)
  case Nil
  then show ?case by simp
next
  case (Cons x xs)
  obtain residue message_id where x: "x = (residue, message_id)" by (cases x)
  have "processed_message_count (fst (addProcessedMessage state residue message_id)) \<le> MAX_PROCESSED_MSGS"
    using Cons.prems by (rule addProcessedMessage_bounded)
  from Cons.IH[OF this] show ?case
    by (auto simp: x split: prod.splits)
qed

lemma add_all_warnings:
  "processed_message_count (fst (add_all state xs)) + length (snd (add_all state xs)) =
     processed_message_count state + length xs \<and>
   set (snd (add_all state xs)) \<subseteq> {WarningLimitReached}"
proof (induction xs arbitrary: state)
  case Nil
  then show ?case by simp
next
  case (Cons x xs)
  obtain residue message_id where x: "x = (residue, message_id)" by (cases x)
  show ?case
    using Cons.IH[of "fst (addProcessedMessage state residue message_id)"]
    by (auto simp: x addProcessedMessage_def processed_message_count_def split: prod.splits)
qed

lemma add_all_keeps:
  "isMessageProcessed state v = 1 \<Longrightarrow> isMessageProcessed (fst (add_all state xs)) v = 1"
proof (induction xs arbitrary: state)
  case Nil
  then show ?case by simp
next
  case (Cons x xs)
  obtain residue message_id where x: "x = (residue, message_id)" by (cases x)
  have "isMessageProcessed (fst (addProcessedMessage state residue message_id)) v = 1"
    using Cons.prems by (rule addProcessedMessage_keeps)
  from Cons.IH[OF this] show ?case
    by (auto simp: x split: prod.splits)
qed

subsection \<open>One message\<close>

lemma map_of_object_put:
  "map_of (object_put key v kvs) k = (if k = key then Some v else map_of kvs k)"
  by (induction kvs) auto

lemma parseMessage_decoded:
  assumes "parseMessage lib message slot = (0, mid, pr)"
  shows "pr = [] \<and> parseMessage lib message slot2 = (0, mid, [])"
  using assms
  by (auto simp: parseMessage_def split: option.splits json.splits)

lemma parseMessage_string:
  assumes "json_object_get (loads lib message) ''message_id'' = Some (JSON_STRING v)"
  shows "parseMessage lib message slot = (0, take 36 v, [])"
proof -
  obtain root where root: "loads lib message = Some root"
    using assms by (cases "loads lib message") (auto simp: json_object_get_def)
  show ?thesis using assms by (simp add: parseMessage_def root)
qed

lemma parseMessage_prints_no_message:
  "filter received (snd (snd (parseMessage lib message slot))) = []"
  by (simp add: parseMessage_def split: option.splits json.splits)

lemma processMessage_decoded:
  assumes "parseMessage lib message slot = (0, mid, pr)"
      and "isMessageProcessed state mid = 0"
  shows "processMessage lib c state slot residue message cid =
     (case dumps lib (json_object_set_new
                        (json_object_set_new (loads lib message) ''message_id'' (json_string lib mid))
                        ''consumer_id'' (Some (JSON_INTEGER cid))) of
        None \<Rightarrow> (c, state, [ReceivedMessage message, ParsedMessageId mid, ErrorSerializing mid])
      | Some text \<Rightarrow>
          (if fst (redisCommand lib c (xadd mid cid)) = None \<or> err (snd (redisCommand lib c (xadd mid cid))) \<noteq> 0
           then (snd (redisCommand lib c (xadd mid cid)), state,
                 [ReceivedMessage message, ParsedMessageId mid, ProcessedMessage text,
                  RedisCommand (xadd mid cid), ErrorStoring (errstr (snd (redisCommand lib c (xadd mid cid))))])
           else (snd (redisCommand lib c (xadd mid cid)), fst (addProcessedMessage state residue mid),
                 [ReceivedMessage message, ParsedMessageId mid, ProcessedMessage text,
                  RedisCommand (xadd mid cid)] @ snd (addProcessedMessage state residue mid))))"
proof -
  have pr: "pr = []" using parseMessage_decoded[OF assms(1)] by simp
  show ?thesis
    using assms(2)
    by (simp add: processMessage_def assms(1) pr Let_def split: option.splits prod.splits)
qed

lemma processMessage_one_message:
  "length (filter received (snd (snd (processMessage lib c state slot residue message cid)))) = 1"
proof -
  obtain status mid pr where p: "parseMessage lib message slot = (status, mid, pr)"
    by (cases "parseMessage lib message slot") auto
  have "filter received pr = []"
    using parseMessage_prints_no_message[of lib message slot] by (simp add: p)
  then show ?thesis
    by (simp add: processMessage_def p Let_def addProcessedMessage_def
             split: option.splits prod.splits)
qed

lemma processMessage_not_json:
  assumes "loads lib message = None"
  shows "processMessage lib c state slot residue message cid =
           (c, state,
            if isMessageProcessed state slot \<noteq> 0
            then [ReceivedMessage message, ErrorParsingJSON, FailedToParse, SkippingProcessed cid slot]
            else [ReceivedMessage message, ErrorParsingJSON, FailedToParse, ErrorSerializing slot])"
  using assms
  by (simp add: processMessage_def parseMessage_def json_object_set_new_def dumps_def)

lemma parseMessage_sends_nothing:
  "filter sending (snd (snd (parseMessage lib message slot))) = []"
  by (simp add: parseMessage_def split: option.splits json.splits)

lemma parseMessage_buffer:
  "(case json_object_get (loads lib message) ''message_id'' of
      Some (JSON_STRING v) \<Rightarrow> fst (snd (parseMessage lib message slot)) = take 36 v
    | _ \<Rightarrow> fst (snd (parseMessage lib message slot)) = slot)"
  by (simp add: parseMessage_def json_object_get_def split: option.splits json.splits)

lemma processMessage_unfold:
  assumes "parseMessage lib message slot = (status, mid, pr)"
  shows "processMessage lib c state slot residue message cid =
     (if isMessageProcessed state mid \<noteq> 0
      then (c, state,
            [ReceivedMessage message] @ pr @
            (if status = 0 then [ParsedMessageId mid] else [FailedToParse]) @
            [SkippingProcessed cid mid])
      else case dumps lib (json_object_set_new
                        (json_object_set_new (loads lib message) ''message_id'' (json_string lib mid))
                        ''consumer_id'' (Some (JSON_INTEGER cid))) of
        None \<Rightarrow> (c, state,
                 [ReceivedMessage message] @ pr @
                 (if status = 0 then [ParsedMessageId mid] else [FailedToParse]) @
                 [ErrorSerializing mid])
      | Some dumped \<Rightarrow>
          (snd (redisCommand lib c (xadd mid cid)),
           (if fst (redisCommand lib c (xadd mid cid)) = None \<or>
               err (snd (redisCommand lib c (xadd mid cid))) \<noteq> 0
            then state else fst (addProcessedMessage state residue mid)),
           ([ReceivedMessage message] @ pr @
            (if status = 0 then [ParsedMessageId mid] else [FailedToParse])) @
           [ProcessedMessage dumped, RedisCommand (xadd mid cid)] @
           (if fst (redisCommand lib c (xadd mid cid)) = None \<or>
               err (snd (redisCommand lib c (xadd mid cid))) \<noteq> 0
            then [ErrorStoring (errstr (snd (redisCommand lib c (xadd mid cid))))]
            else snd (addProcessedMessage state residue mid))))"
  by (cases "redisCommand lib c (xadd mid cid)"; cases "addProcessedMessage state residue mid")
     (auto simp: processMessage_def assms Let_def split: option.splits)

lemma addProcessedMessage_sends_nothing:
  "filter sending (snd (addProcessedMessage state residue mid)) = []"
  by (simp add: addProcessedMessage_def)

subsection \<open>One iteration\<close>

lemma on_reply_messages:
  "length (filter received (snd (on_reply lib cid s i reply))) \<le> 1"
proof (cases reply)
  case (REDIS_REPLY_ARRAY es)
  show ?thesis
  proof (cases "3 \<le> length es")
    case True
    obtain c' state' trace where
      r: "processMessage lib (conn s) (consumer_state s) (stack_slot i) (heap_residue i)
            (str (es ! 2)) cid = (c', state', trace)"
      by (cases "processMessage lib (conn s) (consumer_state s) (stack_slot i) (heap_residue i)
            (str (es ! 2)) cid") auto
    have "length (filter received trace) = 1"
      using processMessage_one_message[of lib "conn s" "consumer_state s" "stack_slot i"
              "heap_residue i" "str (es ! 2)" cid]
      by (simp add: r)
    then show ?thesis
      by (simp add: on_reply_def REDIS_REPLY_ARRAY True r Let_def)
  next
    case False
    then show ?thesis by (simp add: on_reply_def REDIS_REPLY_ARRAY)
  qed
qed (simp_all add: on_reply_def)

lemma on_reply_reader: "reader (fst (on_reply lib cid s i reply)) = reader s"
  by (simp add: on_reply_def Let_def split: redisReply.splits prod.splits)

lemma on_reply_counter:
  "processed_messages (fst (on_reply lib cid s i reply)) =
     (case reply of
        REDIS_REPLY_ARRAY es \<Rightarrow>
          (if 3 \<le> length es
           then (if 3 \<le> now i - start_time s then 0 else processed_messages s + 1)
           else processed_messages s)
      | _ \<Rightarrow> processed_messages s)"
  by (simp add: on_reply_def Let_def split: redisReply.splits prod.splits)

subsection \<open>Start and stop\<close>

lemma getopt_loop_other_options:
  "list_all other_option opts \<Longrightarrow>
     \<exists>cfg'. getopt_loop cfg (opts @ rest) = getopt_loop cfg' rest \<and>
            consumer_group_size cfg' = consumer_group_size cfg \<and>
            consumer_id cfg' = consumer_id cfg"
proof (induction opts arbitrary: cfg)
  case Nil
  then show ?case by auto
next
  case (Cons x xs)
  then have xs: "list_all other_option xs" and x: "other_option x" by simp_all
  show ?case
  proof (cases x)
    case (Opt_h host)
    with Cons.IH[OF xs, of "cfg\<lparr>redis_host := host\<rparr>"] show ?thesis by simp
  next
    case (Opt_p v)
    with Cons.IH[OF xs, of "cfg\<lparr>redis_port := v\<rparr>"] show ?thesis by simp
  next
    case Opt_v
    with Cons.IH[OF xs, of "cfg\<lparr>verbose := 1\<rparr>"] show ?thesis by simp
  qed (use x in simp_all)
qed

lemma group_size_first:
  assumes pre: "list_all other_option pre"
      and mid: "list_all other_option mid"
      and post: "list_all other_option post"
  shows "(g \<le> 0 \<longrightarrow>
            parse_arguments (pre @ Opt_g g # mid @ Opt_c v # post) = (Inl 1, [InvalidGroupSize, Usage])) \<and>
         (0 < g \<and> v \<le> 0 \<longrightarrow>
            parse_arguments (pre @ Opt_g g # mid @ Opt_c v # post) = (Inl 1, [InvalidConsumerId, Usage])) \<and>
         (0 < g \<and> g < v \<longrightarrow>
            parse_arguments (pre @ Opt_g g # mid @ Opt_c v # post) = (Inl 1, [TooManyConsumers g])) \<and>
         (0 < g \<and> 0 < v \<and> v \<le> g \<longrightarrow>
            (\<exists>cfg. parse_arguments (pre @ Opt_g g # mid @ Opt_c v # post) = (Inr cfg, []) \<and>
                   consumer_group_size cfg = g \<and> consumer_id cfg = v))"
proof -
  obtain c1 where c1: "getopt_loop initial_config (pre @ Opt_g g # mid @ Opt_c v # post) =
                         getopt_loop c1 (Opt_g g # mid @ Opt_c v # post)"
    using getopt_loop_other_options[OF pre] by blast
  obtain c2 where c2: "getopt_loop (c1\<lparr>consumer_group_size := g\<rparr>) (mid @ Opt_c v # post) =
                         getopt_loop c2 (Opt_c v # post)"
      and g2: "consumer_group_size c2 = g"
    using getopt_loop_other_options[OF mid, of "c1\<lparr>consumer_group_size := g\<rparr>" "Opt_c v # post"]
    by auto
  obtain c3 where c3: "getopt_loop (c2\<lparr>consumer_id := v\<rparr>) post = getopt_loop c3 []"
      and g3: "consumer_group_size c3 = g" and v3: "consumer_id c3 = v"
    using getopt_loop_other_options[OF post, of "c2\<lparr>consumer_id := v\<rparr>" "[]"] g2
    by auto
  have loop: "getopt_loop initial_config (pre @ Opt_g g # mid @ Opt_c v # post) =
          (if g \<le> 0 then (Inl 1, [InvalidGroupSize, Usage])
           else if v \<le> 0 then (Inl 1, [InvalidConsumerId, Usage])
           else if g < v then (Inl 1, [TooManyConsumers g])
           else (Inr c3, []))"
    by (simp add: c1 c2 g2 c3)
  show ?thesis
    using g3 v3 by (auto simp: parse_arguments_def loop)
qed

lemma later_group_size_unchecked:
  "parse_arguments [Opt_g 3, Opt_c 2, Opt_g 1] =
     (Inr \<lparr>consumer_group_size = 1, consumer_id = 2, redis_host = ''localhost'',
           redis_port = 6379, verbose = 0\<rparr>, [])"
  by (simp add: parse_arguments_def initial_config_def)

lemma subscribe_connection_failure:
  assumes "redisCommand lib c [Text ''SUBSCRIBE'', Text PUBLISH_CHANNEL] = (reply, c')"
      and "reply = None \<or> err c' \<noteq> 0"
  shows "subscribe lib c = (Inl 1, [ErrorSubscribing (errstr c')])"
  using assms by (auto simp: subscribe_def)

lemma single_trigger:
  "trigger running =
     \<lparr>global_redis_context = Some 1, global_consumer_state = Some 2,
      redisFree_calls = [1], freeConsumerState_calls = [2],
      printed = [CleaningUpContext, CleaningUpState], exit_status = Some 0\<rparr>"
  by (simp add: trigger_def shutdown_def free_context_def free_state_def running_def)

section \<open>Claims\<close>

text \<open>
  C1. A decoded message whose identifier is not in the table: the table changes only
  when the \<open>XADD\<close> was sent and came back with a reply and without a connection error,
  and then it is the identifier that is added. When the \<open>XADD\<close> was sent and failed (no
  reply, or \<open>err\<close> set), the table is unchanged, the identifier is still unknown, the
  failure is logged, and processing the same message again sends the \<open>XADD\<close> again.
\<close>

theorem publish_before_commit:
  assumes decoded: "parseMessage lib message slot = (0, mid, pr)"
      and novel: "isMessageProcessed state mid = 0"
      and run: "processMessage lib c state slot residue message cid = (c', state', trace)"
  shows "(state' \<noteq> state \<longrightarrow>
            RedisCommand (xadd mid cid) \<in> set trace \<and>
            (\<exists>reply. redisCommand lib c (xadd mid cid) = (Some reply, c')) \<and> err c' = 0 \<and>
            state' = fst (addProcessedMessage state residue mid)) \<and>
         (RedisCommand (xadd mid cid) \<in> set trace \<and>
          (fst (redisCommand lib c (xadd mid cid)) = None \<or> err c' \<noteq> 0) \<longrightarrow>
            state' = state \<and> isMessageProcessed state' mid = 0 \<and>
            ErrorStoring (errstr c') \<in> set trace \<and>
            (\<forall>slot2 residue2.
               RedisCommand (xadd mid cid) \<in>
                 set (snd (snd (processMessage lib c' state' slot2 residue2 message cid)))))"
proof -
  note first = processMessage_decoded[OF decoded novel, where c=c and residue=residue and cid=cid]
  have again: "\<And>slot2 residue2 c2. processMessage lib c2 state slot2 residue2 message cid =
     (case dumps lib (json_object_set_new
                        (json_object_set_new (loads lib message) ''message_id'' (json_string lib mid))
                        ''consumer_id'' (Some (JSON_INTEGER cid))) of
        None \<Rightarrow> (c2, state, [ReceivedMessage message, ParsedMessageId mid, ErrorSerializing mid])
      | Some text \<Rightarrow>
          (if fst (redisCommand lib c2 (xadd mid cid)) = None \<or> err (snd (redisCommand lib c2 (xadd mid cid))) \<noteq> 0
           then (snd (redisCommand lib c2 (xadd mid cid)), state,
                 [ReceivedMessage message, ParsedMessageId mid, ProcessedMessage text,
                  RedisCommand (xadd mid cid), ErrorStoring (errstr (snd (redisCommand lib c2 (xadd mid cid))))])
           else (snd (redisCommand lib c2 (xadd mid cid)), fst (addProcessedMessage state residue2 mid),
                 [ReceivedMessage message, ParsedMessageId mid, ProcessedMessage text,
                  RedisCommand (xadd mid cid)] @ snd (addProcessedMessage state residue2 mid))))"
    using processMessage_decoded[OF conjunct2[OF parseMessage_decoded[OF decoded]] novel] by blast
  let ?aug = "json_object_set_new
                (json_object_set_new (loads lib message) ''message_id'' (json_string lib mid))
                ''consumer_id'' (Some (JSON_INTEGER cid))"
  show ?thesis
  proof (cases "dumps lib ?aug")
    case None
    with first run show ?thesis by auto
  next
    case (Some dumped)
    show ?thesis
    proof (cases "fst (redisCommand lib c (xadd mid cid)) = None \<or> err (snd (redisCommand lib c (xadd mid cid))) \<noteq> 0")
      case True
      with first run Some have r: "c' = snd (redisCommand lib c (xadd mid cid))" "state' = state"
        "trace = [ReceivedMessage message, ParsedMessageId mid, ProcessedMessage dumped,
                  RedisCommand (xadd mid cid), ErrorStoring (errstr (snd (redisCommand lib c (xadd mid cid))))]"
        by auto
      have "\<And>slot2 residue2. RedisCommand (xadd mid cid) \<in>
                 set (snd (snd (processMessage lib c' state slot2 residue2 message cid)))"
        by (simp add: again Some)
      with r novel show ?thesis by simp
    next
      case False
      with first run Some have r: "c' = snd (redisCommand lib c (xadd mid cid))"
        "state' = fst (addProcessedMessage state residue mid)"
        "trace = [ReceivedMessage message, ParsedMessageId mid, ProcessedMessage dumped,
                  RedisCommand (xadd mid cid)] @ snd (addProcessedMessage state residue mid)"
        by auto
      from False obtain reply where ok: "redisCommand lib c (xadd mid cid) = (Some reply, c')"
        using r(1) by (cases "redisCommand lib c (xadd mid cid)") auto
      have e: "err c' = 0" using False r(1) by simp
      have sent: "RedisCommand (xadd mid cid) \<in> set trace" by (simp add: r(3))
      have nofail: "\<not> (fst (redisCommand lib c (xadd mid cid)) = None \<or> err c' \<noteq> 0)"
        using ok e by simp
      show ?thesis using ok e sent nofail r(2) by blast
    qed
  qed
qed

theorem publish_before_commit_witness:
  "parseMessage (example_library None 1) (Some payload_a) [] = (0, ''a'', []) \<and>
   isMessageProcessed createConsumerState ''a'' = 0 \<and>
   fst (snd (processMessage (example_library None 1) connected createConsumerState [] []
               (Some payload_a) 2)) = createConsumerState \<and>
   RedisCommand (xadd ''a'' 2) \<in>
     set (snd (snd (processMessage (example_library None 1) \<lparr>err = 1, errstr = []\<rparr>
                      createConsumerState ''stale'' ''?'' (Some payload_a) 2))) \<and>
   fst (snd (processMessage (example_library (Some (REDIS_REPLY_STRING ''1-0'')) 0) connected
               createConsumerState [] [] (Some payload_a) 2)) = \<lparr>processed_message_ids = [''a'']\<rparr> \<and>
   redisCommand (example_library (Some (REDIS_REPLY_STRING ''1-0'')) 0) connected (xadd ''a'' 2) =
     (Some (REDIS_REPLY_STRING ''1-0''), connected)"
proof -
  let ?F = "example_library None 1"
  let ?A = "example_library (Some (REDIS_REPLY_STRING ''1-0'')) 0"
  have h1: "parseMessage ?F (Some payload_a) [] = (0, ''a'', [])"
    by (simp add: parseMessage_def json_defs example_defs)
  have h2: "isMessageProcessed createConsumerState ''a'' = 0"
    by (simp add: table_defs)
  obtain c' state' trace where
    h3: "processMessage ?F connected createConsumerState [] [] (Some payload_a) 2 = (c', state', trace)"
    by (cases "processMessage ?F connected createConsumerState [] [] (Some payload_a) 2") auto
  have c': "c' = \<lparr>err = 1, errstr = []\<rparr>" and sent: "RedisCommand (xadd ''a'' 2) \<in> set trace"
    using h3 by (auto simp: processMessage_def parseMessage_def json_defs table_defs example_defs xadd_def)
  have failed: "fst (redisCommand ?F connected (xadd ''a'' 2)) = None \<or> err c' \<noteq> 0"
    by (simp add: example_defs)
  from publish_before_commit[OF h1 h2 h3] sent failed
  have unchanged: "state' = createConsumerState"
    and again: "\<forall>slot2 residue2. RedisCommand (xadd ''a'' 2) \<in>
           set (snd (snd (processMessage ?F c' state' slot2 residue2 (Some payload_a) 2)))"
    by blast+
  have k1: "parseMessage ?A (Some payload_a) [] = (0, ''a'', [])"
    by (simp add: parseMessage_def json_defs example_defs)
  obtain d' added sent' where
    k3: "processMessage ?A connected createConsumerState [] [] (Some payload_a) 2 = (d', added, sent')"
    by (cases "processMessage ?A connected createConsumerState [] [] (Some payload_a) 2") auto
  have stored: "added = \<lparr>processed_message_ids = [''a'']\<rparr>"
    using k3 by (auto simp: processMessage_def parseMessage_def json_defs table_defs example_defs)
  then have changed: "added \<noteq> createConsumerState"
    by (simp add: createConsumerState_def)
  from publish_before_commit[OF k1 h2 k3] changed
  obtain reply where "redisCommand ?A connected (xadd ''a'' 2) = (Some reply, d')" and "err d' = 0"
    by blast
  then have ok: "redisCommand ?A connected (xadd ''a'' 2) = (Some (REDIS_REPLY_STRING ''1-0''), connected)"
    by (simp add: example_defs)
  from h1 h2 h3 c' unchanged again k3 stored ok show ?thesis by simp
qed

text \<open>
  C2. The claim: a frame whose payload has no string \<open>message_id\<close> causes no change of
  the table and no publish attempt. The code at the payload \<open>{}\<close>, with an empty table,
  a server that accepts the \<open>XADD\<close>, and \<open>stale\<close> in the uninitialised buffer:
  \<open>parseMessage\<close> fails and is reported, and \<open>processMessage\<close> goes on, sends an
  \<open>XADD\<close> for \<open>stale\<close> and adds \<open>stale\<close> to the table.
\<close>

theorem missing_id_still_published:
  \<open>processMessage (example_library (Some (REDIS_REPLY_STRING ''1-0'')) 0) connected
      createConsumerState ''stale'' [] (Some ''{}'') 2 =
     (connected, \<lparr>processed_message_ids = [''stale'']\<rparr>,
      [ReceivedMessage (Some ''{}''), ErrorMessageIdMissing, FailedToParse,
       ProcessedMessage ''{"message_id":"stale","consumer_id":2}'',
       RedisCommand [Text ''XADD'', Text ''messages:processed'', Text ''*'',
                     Text ''message_id'', Text ''stale'', Text ''consumer_id'', Decimal 2]])\<close>
  by (simp add: processMessage_def parseMessage_def json_defs table_defs example_defs xadd_def STREAM_KEY_def)

text \<open>
  C3, as stated, fails: one read delivers two complete frames; the iteration extracts
  and processes the first, and the second is still in the reader's buffer, complete,
  when the next \<open>read\<close> is issued.
\<close>

theorem second_frame_left_buffered:
  "fst (loop_body (example_library (Some (REDIS_REPLY_STRING ''1-0'')) 0) 2
          \<lparr>conn = connected, reader = [], consumer_state = createConsumerState,
           start_time = 100, processed_messages = 0\<rparr>
          \<lparr>read_n = 156, read_bytes = wire_a @ wire_a, now = 100, stack_slot = [], heap_residue = []\<rparr>) =
     Some \<lparr>conn = connected, reader = wire_a,
           consumer_state = \<lparr>processed_message_ids = [''a'']\<rparr>,
           start_time = 100, processed_messages = 1\<rparr> \<and>
   redisReaderGetReply (example_library (Some (REDIS_REPLY_STRING ''1-0'')) 0) wire_a =
     (REDIS_OK, Some message_a, [])"
  by (simp add: loop_defs wire_defs processMessage_def parseMessage_def json_defs table_defs
        example_defs xadd_def)

text \<open>
  C3, amended. After a read that returned \<open>n > 0\<close> bytes the bytes are fed to the
  reader and \<open>redisReaderGetReply\<close> is called once: when a complete frame is at the
  front of the buffer, that frame is extracted and fully processed before the next read
  (at most one message per iteration), and everything behind it stays in the buffer for
  a later iteration.
\<close>

theorem one_extraction_per_read:
  assumes got: "0 < read_n i"
      and continues: "loop_body lib cid s i = (Some s', trace)"
  shows "reader s' =
           snd (snd (redisReaderGetReply lib
                       (redisReaderFeed (reader s) (take (nat (read_n i)) (read_bytes i))))) \<and>
         length (filter received trace) \<le> 1 \<and>
         (\<forall>reply rest.
            reader_decode lib (reader s @ take (nat (read_n i)) (read_bytes i)) = Frame reply rest \<longrightarrow>
              reader s' = rest \<and> (s', trace) = on_reply lib cid (s\<lparr>reader := rest\<rparr>) i reply)"
proof (cases "reader_decode lib (reader s @ take (nat (read_n i)) (read_bytes i))")
  case Incomplete
  with got continues show ?thesis by (auto simp: loop_defs)
next
  case ProtocolError
  with got continues show ?thesis by (simp add: loop_defs)
next
  case (Frame reply rest)
  obtain s1 t1 where o: "on_reply lib cid (s\<lparr>reader := rest\<rparr>) i reply = (s1, t1)"
    by (cases "on_reply lib cid (s\<lparr>reader := rest\<rparr>) i reply") auto
  from got continues Frame o have eq: "s' = s1" "trace = t1"
    by (simp_all add: loop_body_def redisReaderGetReply_def redisReaderFeed_def)
  have r: "reader s1 = rest"
    using on_reply_reader[of lib cid "s\<lparr>reader := rest\<rparr>" i reply] by (simp add: o)
  have n: "length (filter received t1) \<le> 1"
    using on_reply_messages[of lib cid "s\<lparr>reader := rest\<rparr>" i reply] by (simp add: o)
  show ?thesis
    using eq r n o Frame by (simp add: redisReaderGetReply_def redisReaderFeed_def)
qed

theorem one_extraction_per_read_witness:
  "(0::int) < 156 \<and>
   (\<exists>s' trace.
      loop_body (example_library (Some (REDIS_REPLY_STRING ''1-0'')) 0) 2
        \<lparr>conn = connected, reader = [], consumer_state = createConsumerState,
         start_time = 100, processed_messages = 0\<rparr>
        \<lparr>read_n = 156, read_bytes = wire_a @ wire_a, now = 100, stack_slot = [], heap_residue = []\<rparr> =
        (Some s', trace) \<and>
      reader s' = wire_a \<and> length (filter received trace) \<le> 1)"
proof -
  let ?L = "example_library (Some (REDIS_REPLY_STRING ''1-0'')) 0"
  let ?s = "\<lparr>conn = connected, reader = [], consumer_state = createConsumerState,
         start_time = 100, processed_messages = 0\<rparr>"
  let ?i = "\<lparr>read_n = 156, read_bytes = wire_a @ wire_a, now = 100, stack_slot = [], heap_residue = []\<rparr>"
  have got: "0 < read_n ?i" by simp
  obtain s' trace where continues: "loop_body ?L 2 ?s ?i = (Some s', trace)"
    by (simp add: loop_defs wire_defs processMessage_def parseMessage_def json_defs table_defs
          example_defs xadd_def)
  have decoded: "reader_decode ?L (reader ?s @ take (nat (read_n ?i)) (read_bytes ?i)) =
                   Frame message_a wire_a"
    by (simp add: example_library_def wire_defs payload_a_def)
  from one_extraction_per_read[OF got continues] decoded
  have "reader s' = wire_a" and "length (filter received trace) \<le> 1"
    by blast+
  with continues show ?thesis by simp
qed

text \<open>
  C4, as stated, fails: the payload \<open>payload_a\<close> has a field \<open>body\<close>, and the record
  sent with \<open>XADD\<close> has the two fields \<open>message_id\<close> and \<open>consumer_id\<close> only.
\<close>

theorem pass_through_not_appended:
  \<open>snd (snd (processMessage (example_library (Some (REDIS_REPLY_STRING ''1-0'')) 0) connected
               createConsumerState [] [] (Some payload_a) 2)) =
     [ReceivedMessage (Some payload_a), ParsedMessageId ''a'',
      ProcessedMessage ''{"message_id":"a","body":"x","consumer_id":2}'',
      RedisCommand [Text ''XADD'', Text ''messages:processed'', Text ''*'',
                    Text ''message_id'', Text ''a'', Text ''consumer_id'', Decimal 2]] \<and>
   json_object_get (loads (example_library (Some (REDIS_REPLY_STRING ''1-0'')) 0) (Some payload_a))
     ''body'' = Some (JSON_STRING ''x'') \<and>
   stream_fields [Text ''XADD'', Text ''messages:processed'', Text ''*'',
                  Text ''message_id'', Text ''a'', Text ''consumer_id'', Decimal 2] =
     [(Text ''message_id'', Text ''a''), (Text ''consumer_id'', Decimal 2)]\<close>
  by (simp add: processMessage_def parseMessage_def json_defs table_defs example_defs xadd_def
        STREAM_KEY_def stream_fields_def)

text \<open>
  C4, amended. Every \<open>XADD\<close> that \<open>processMessage\<close> sends, and it sends at most one,
  carries exactly two fields: \<open>message_id\<close> with the content of the identifier buffer
  (the first 36 bytes of the payload's \<open>message_id\<close> string when there is one, the
  buffer as it was otherwise) and \<open>consumer_id\<close> with the consumer id. No other field
  of the payload is sent. What is serialized and printed, immediately before the
  command is sent, is the input object with \<open>consumer_id\<close> added or overwritten, with
  \<open>message_id\<close> added or overwritten by the buffer content when that content passes
  the UTF-8 check of \<open>json_string\<close> and left as it was when it does not, and with every
  other member kept; a payload that is not an object is printed unchanged.
\<close>

theorem appended_record_fields:
  assumes run: "processMessage lib c state slot residue message cid = (c', state', trace)"
      and sent: "RedisCommand cmd \<in> set trace"
  shows "let mid = fst (snd (parseMessage lib message slot));
             augmented = json_object_set_new
                           (json_object_set_new (loads lib message) ''message_id'' (json_string lib mid))
                           ''consumer_id'' (Some (JSON_INTEGER cid))
         in cmd = xadd mid cid \<and>
            stream_fields cmd = [(Text ''message_id'', Text mid), (Text ''consumer_id'', Decimal cid)] \<and>
            filter sending trace = [RedisCommand cmd] \<and>
            (case json_object_get (loads lib message) ''message_id'' of
               Some (JSON_STRING v) \<Rightarrow> mid = take 36 v
             | _ \<Rightarrow> mid = slot) \<and>
            (\<exists>dumped pre post.
               dumps lib augmented = Some dumped \<and>
               trace = pre @ [ProcessedMessage dumped, RedisCommand cmd] @ post) \<and>
            (case loads lib message of
               Some (JSON_OBJECT kvs) \<Rightarrow>
                 json_object_get augmented ''consumer_id'' = Some (JSON_INTEGER cid) \<and>
                 json_object_get augmented ''message_id'' =
                   (if utf8_check_string lib mid then Some (JSON_STRING mid)
                    else map_of kvs ''message_id'') \<and>
                 (\<forall>k. k \<noteq> ''message_id'' \<and> k \<noteq> ''consumer_id'' \<longrightarrow>
                    json_object_get augmented k = map_of kvs k)
             | _ \<Rightarrow> augmented = loads lib message)"
proof -
  obtain status mid pr where p: "parseMessage lib message slot = (status, mid, pr)"
    by (cases "parseMessage lib message slot") auto
  have quiet: "filter sending pr = []"
    using parseMessage_sends_nothing[of lib message slot] by (simp add: p)
  let ?aug = "json_object_set_new
                (json_object_set_new (loads lib message) ''message_id'' (json_string lib mid))
                ''consumer_id'' (Some (JSON_INTEGER cid))"
  let ?head = "[ReceivedMessage message] @ pr @
               (if status = 0 then [ParsedMessageId mid] else [FailedToParse])"
  let ?failed = "fst (redisCommand lib c (xadd mid cid)) = None \<or>
                 err (snd (redisCommand lib c (xadd mid cid))) \<noteq> 0"
  let ?post = "if ?failed then [ErrorStoring (errstr (snd (redisCommand lib c (xadd mid cid))))]
               else snd (addProcessedMessage state residue mid)"
  have head_quiet: "filter sending ?head = []"
    using quiet by simp
  have post_quiet: "filter sending ?post = []"
    by (simp add: addProcessedMessage_sends_nothing)
  have in_filter: "RedisCommand cmd \<in> set (filter sending trace)"
    using sent by simp
  note unfolded = processMessage_unfold[OF p, of c state residue cid]
  have novel: "\<not> isMessageProcessed state mid \<noteq> 0"
  proof
    assume "isMessageProcessed state mid \<noteq> 0"
    with unfolded run have "trace = ?head @ [SkippingProcessed cid mid]" by simp
    then have "filter sending trace = []" using head_quiet by simp
    with in_filter show False by simp
  qed
  obtain dumped where d: "dumps lib ?aug = Some dumped"
  proof (cases "dumps lib ?aug")
    case None
    with unfolded run novel have "trace = ?head @ [ErrorSerializing mid]" by simp
    then have "filter sending trace = []" using head_quiet by simp
    with in_filter show ?thesis by simp
  next
    case (Some dumped)
    then show ?thesis by (rule that)
  qed
  have trace: "trace = ?head @ [ProcessedMessage dumped, RedisCommand (xadd mid cid)] @ ?post"
    using unfolded run novel d by simp
  have only: "filter sending trace = [RedisCommand (xadd mid cid)]"
    using head_quiet post_quiet by (simp add: trace)
  have cmd: "cmd = xadd mid cid"
    using in_filter by (simp add: only)
  have f: "stream_fields (xadd mid cid) =
             [(Text ''message_id'', Text mid), (Text ''consumer_id'', Decimal cid)]"
    by (simp add: stream_fields_def xadd_def)
  have buffer: "(case json_object_get (loads lib message) ''message_id'' of
                   Some (JSON_STRING v) \<Rightarrow> mid = take 36 v
                 | _ \<Rightarrow> mid = slot)"
    using parseMessage_buffer[of lib message slot]
    by (simp add: p split: option.splits json.splits)
  have order: "\<exists>dumped pre post.
               dumps lib ?aug = Some dumped \<and>
               trace = pre @ [ProcessedMessage dumped, RedisCommand cmd] @ post"
    using d trace cmd by blast
  have obj: "(case loads lib message of
               Some (JSON_OBJECT kvs) \<Rightarrow>
                 json_object_get ?aug ''consumer_id'' = Some (JSON_INTEGER cid) \<and>
                 json_object_get ?aug ''message_id'' =
                   (if utf8_check_string lib mid then Some (JSON_STRING mid)
                    else map_of kvs ''message_id'') \<and>
                 (\<forall>k. k \<noteq> ''message_id'' \<and> k \<noteq> ''consumer_id'' \<longrightarrow>
                    json_object_get ?aug k = map_of kvs k)
             | _ \<Rightarrow> ?aug = loads lib message)"
    by (simp add: json_object_set_new_def json_object_get_def json_string_def map_of_object_put
             split: option.splits json.splits)
  show ?thesis
    unfolding Let_def p fst_conv snd_conv
    using cmd f only buffer order obj by (simp only: simp_thms)
qed

theorem appended_record_fields_witness:
  "RedisCommand (xadd ''a'' 2) \<in>
     set (snd (snd (processMessage (example_library (Some (REDIS_REPLY_STRING ''1-0'')) 0) connected
                      createConsumerState [] [] (Some payload_a) 2))) \<and>
   stream_fields (xadd ''a'' 2) = [(Text ''message_id'', Text ''a''), (Text ''consumer_id'', Decimal 2)] \<and>
   json_object_get
     (json_object_set_new
        (json_object_set_new
           (loads (example_library (Some (REDIS_REPLY_STRING ''1-0'')) 0) (Some payload_a))
           ''message_id''
           (json_string (example_library (Some (REDIS_REPLY_STRING ''1-0'')) 0) ''a''))
        ''consumer_id'' (Some (JSON_INTEGER 2)))
     ''body'' = Some (JSON_STRING ''x'') \<and>
   RedisCommand (xadd (take 36 id_cut) 2) \<in>
     set (snd (snd (processMessage cut_library connected createConsumerState [] []
                      (Some payload_cut) 2))) \<and>
   json_object_get
     (json_object_set_new
        (json_object_set_new (loads cut_library (Some payload_cut)) ''message_id''
           (json_string cut_library (take 36 id_cut)))
        ''consumer_id'' (Some (JSON_INTEGER 2)))
     ''message_id'' = Some (JSON_STRING id_cut) \<and>
   take 36 id_cut \<noteq> id_cut"
proof -
  let ?L = "example_library (Some (REDIS_REPLY_STRING ''1-0'')) 0"
  let ?aug = "json_object_set_new
                (json_object_set_new (loads ?L (Some payload_a)) ''message_id'' (json_string ?L ''a''))
                ''consumer_id'' (Some (JSON_INTEGER 2))"
  let ?kvs = "[(''message_id'', JSON_STRING ''a''), (''body'', JSON_STRING ''x'')]"
  obtain c' state' trace where
    run: "processMessage ?L connected createConsumerState [] [] (Some payload_a) 2 = (c', state', trace)"
    by (cases "processMessage ?L connected createConsumerState [] [] (Some payload_a) 2") auto
  have sent: "RedisCommand (xadd ''a'' 2) \<in> set trace"
    using run
    by (auto simp: processMessage_def parseMessage_def json_defs table_defs example_defs xadd_def)
  have mid: "fst (snd (parseMessage ?L (Some payload_a) [])) = ''a''"
    by (simp add: parseMessage_def json_defs example_defs)
  have object: "loads ?L (Some payload_a) = Some (JSON_OBJECT ?kvs)"
    by (simp add: json_defs example_defs)
  note all = appended_record_fields[OF run sent, unfolded Let_def mid]
  have fields: "stream_fields (xadd ''a'' 2) =
          [(Text ''message_id'', Text ''a''), (Text ''consumer_id'', Decimal 2)]"
    using all by (rule conjunct1[OF conjunct2])
  have "case loads ?L (Some payload_a) of
          Some (JSON_OBJECT kvs) \<Rightarrow>
            json_object_get ?aug ''consumer_id'' = Some (JSON_INTEGER 2) \<and>
            json_object_get ?aug ''message_id'' =
              (if utf8_check_string ?L ''a'' then Some (JSON_STRING ''a'')
               else map_of kvs ''message_id'') \<and>
            (\<forall>k. k \<noteq> ''message_id'' \<and> k \<noteq> ''consumer_id'' \<longrightarrow>
               json_object_get ?aug k = map_of kvs k)
        | _ \<Rightarrow> ?aug = loads ?L (Some payload_a)"
    using all by (rule conjunct2[OF conjunct2[OF conjunct2[OF conjunct2[OF conjunct2]]]])
  then have "\<forall>k. k \<noteq> ''message_id'' \<and> k \<noteq> ''consumer_id'' \<longrightarrow>
               json_object_get ?aug k = map_of ?kvs k"
    unfolding object by simp
  then have "''body'' \<noteq> ''message_id'' \<and> ''body'' \<noteq> ''consumer_id'' \<longrightarrow>
                  json_object_get ?aug ''body'' = map_of ?kvs ''body''"
    by (rule spec)
  then have body: "json_object_get ?aug ''body'' = Some (JSON_STRING ''x'')"
    by simp
  let ?cut = "json_object_set_new
                (json_object_set_new (loads cut_library (Some payload_cut)) ''message_id''
                   (json_string cut_library (take 36 id_cut)))
                ''consumer_id'' (Some (JSON_INTEGER 2))"
  obtain d' stored sent' where
    run_cut: "processMessage cut_library connected createConsumerState [] [] (Some payload_cut) 2 =
                (d', stored, sent')"
    by (cases "processMessage cut_library connected createConsumerState [] [] (Some payload_cut) 2") auto
  have sent_cut: "RedisCommand (xadd (take 36 id_cut) 2) \<in> set sent'"
    using run_cut
    by (auto simp: processMessage_def parseMessage_def json_defs table_defs cut_library_def
                   payload_cut_def id_cut_def connected_def xadd_def)
  have mid_cut: "fst (snd (parseMessage cut_library (Some payload_cut) [])) = take 36 id_cut"
    by (simp add: parseMessage_def json_defs cut_library_def)
  have object_cut: "loads cut_library (Some payload_cut) =
                      Some (JSON_OBJECT [(''message_id'', JSON_STRING id_cut)])"
    by (simp add: json_defs cut_library_def)
  have invalid: "\<not> utf8_check_string cut_library (take 36 id_cut)"
    by (simp add: cut_library_def)
  note all_cut = appended_record_fields[OF run_cut sent_cut, unfolded Let_def mid_cut]
  have "case loads cut_library (Some payload_cut) of
          Some (JSON_OBJECT kvs) \<Rightarrow>
            json_object_get ?cut ''consumer_id'' = Some (JSON_INTEGER 2) \<and>
            json_object_get ?cut ''message_id'' =
              (if utf8_check_string cut_library (take 36 id_cut)
               then Some (JSON_STRING (take 36 id_cut))
               else map_of kvs ''message_id'') \<and>
            (\<forall>k. k \<noteq> ''message_id'' \<and> k \<noteq> ''consumer_id'' \<longrightarrow>
               json_object_get ?cut k = map_of kvs k)
        | _ \<Rightarrow> ?cut = loads cut_library (Some payload_cut)"
    using all_cut by (rule conjunct2[OF conjunct2[OF conjunct2[OF conjunct2[OF conjunct2]]]])
  then have kept: "json_object_get ?cut ''message_id'' = Some (JSON_STRING id_cut)"
    unfolding object_cut using invalid by simp
  have differ: "take 36 id_cut \<noteq> id_cut"
    by (simp add: id_cut_def)
  from run sent fields body run_cut sent_cut kept differ show ?thesis by simp
qed

text \<open>
  C5, as stated, fails: a frame whose message is skipped as already processed raises
  \<open>processed_messages\<close> from 0 to 1.
\<close>

theorem duplicate_is_counted:
  "loop_body (example_library (Some (REDIS_REPLY_STRING ''1-0'')) 0) 2
     \<lparr>conn = connected, reader = [], consumer_state = \<lparr>processed_message_ids = [''a'']\<rparr>,
      start_time = 100, processed_messages = 0\<rparr>
     \<lparr>read_n = 78, read_bytes = wire_a, now = 101, stack_slot = [], heap_residue = []\<rparr> =
   (Some \<lparr>conn = connected, reader = [], consumer_state = \<lparr>processed_message_ids = [''a'']\<rparr>,
          start_time = 100, processed_messages = 1\<rparr>,
    [ReceivedMessage (Some payload_a), ParsedMessageId ''a'', SkippingProcessed 2 ''a''])"
  by (simp add: loop_defs wire_defs processMessage_def parseMessage_def json_defs table_defs
        example_defs str.simps)

text \<open>
  C5, amended. The counter is incremented once for every extracted array reply with at
  least three elements, whatever \<open>processMessage\<close> did with it (forwarded, skipped,
  not decoded, not published), and is then reset to 0 when three seconds have passed
  since the window started; an iteration that extracts no such reply leaves it unchanged.
\<close>

theorem counter_counts_message_frames:
  assumes continues: "loop_body lib cid s i = (Some s', trace)"
  shows "processed_messages s' =
           (case reader_decode lib (reader s @ take (nat (read_n i)) (read_bytes i)) of
              Frame (REDIS_REPLY_ARRAY es) rest \<Rightarrow>
                (if 3 \<le> length es
                 then (if 3 \<le> now i - start_time s then 0 else processed_messages s + 1)
                 else processed_messages s)
            | _ \<Rightarrow> processed_messages s)"
proof -
  have got: "0 < read_n i"
    using continues by (simp add: loop_body_def split: if_splits)
  show ?thesis
  proof (cases "reader_decode lib (reader s @ take (nat (read_n i)) (read_bytes i))")
    case Incomplete
    with got continues show ?thesis by (auto simp: loop_defs)
  next
    case ProtocolError
    with got continues show ?thesis by (simp add: loop_defs)
  next
    case (Frame reply rest)
    obtain s1 t1 where o: "on_reply lib cid (s\<lparr>reader := rest\<rparr>) i reply = (s1, t1)"
      by (cases "on_reply lib cid (s\<lparr>reader := rest\<rparr>) i reply") auto
    from got continues Frame o have eq: "s' = s1"
      by (simp add: loop_body_def redisReaderGetReply_def redisReaderFeed_def)
    have "processed_messages s1 =
            (case reply of
               REDIS_REPLY_ARRAY es \<Rightarrow>
                 (if 3 \<le> length es
                  then (if 3 \<le> now i - start_time s then 0 else processed_messages s + 1)
                  else processed_messages s)
             | _ \<Rightarrow> processed_messages s)"
      using on_reply_counter[of lib cid "s\<lparr>reader := rest\<rparr>" i reply]
      by (simp add: o split: redisReply.splits)
    then show ?thesis by (simp add: eq Frame)
  qed
qed

theorem counter_counts_message_frames_witness:
  "\<exists>s' trace.
     loop_body (example_library None 1) 2
       \<lparr>conn = connected, reader = [], consumer_state = createConsumerState,
        start_time = 100, processed_messages = 0\<rparr>
       \<lparr>read_n = 78, read_bytes = wire_a, now = 101, stack_slot = [], heap_residue = []\<rparr> =
       (Some s', trace) \<and>
     ErrorStoring [] \<in> set trace \<and> processed_messages s' = 1"
proof -
  let ?L = "example_library None 1"
  let ?s = "\<lparr>conn = connected, reader = [], consumer_state = createConsumerState,
        start_time = 100, processed_messages = 0\<rparr>"
  let ?i = "\<lparr>read_n = 78, read_bytes = wire_a, now = 101, stack_slot = [], heap_residue = []\<rparr>"
  obtain s' trace where continues: "loop_body ?L 2 ?s ?i = (Some s', trace)"
    and failed: "ErrorStoring [] \<in> set trace"
    by (simp add: loop_defs wire_defs processMessage_def parseMessage_def json_defs table_defs
          example_defs xadd_def)
  have decoded: "reader_decode ?L (take 78 wire_a) = Frame message_a []"
    by (simp add: example_library_def wire_defs payload_a_def)
  have "processed_messages s' = 1"
    using counter_counts_message_frames[OF continues]
    by (simp add: decoded message_a_def)
  with continues failed show ?thesis by blast
qed

text \<open>
  C6. The claim: an identifier that was inserted is found afterwards. The code at the
  identifier \<open>a\<close>, inserted into the empty table when the byte after the copy is not
  zero (here \<open>?\<close>): the slot reads \<open>a?\<close>, and looking up \<open>a\<close> returns 0.
\<close>

theorem unterminated_copy_not_found:
  "addProcessedMessage createConsumerState ''?'' ''a'' = (\<lparr>processed_message_ids = [''a?'']\<rparr>, []) \<and>
   isMessageProcessed \<lparr>processed_message_ids = [''a?'']\<rparr> ''a'' = 0"
  by (simp add: table_defs)

text \<open>
  C7. The claim: in any option order, exactly the inputs with a group size above 0 and
  a consumer id from 1 to the group size are accepted. The code at the consumer id 2
  given before the group size 3: the consumer id is compared with the group size while
  that still holds -1, the value that stands for "not given", and the command line is
  rejected with status 1, reporting a maximum of -1 consumers, without the usage text.
\<close>

theorem consumer_id_before_group_size:
  "parse_arguments [Opt_c 2, Opt_g 3] = (Inl 1, [TooManyConsumers (- 1)])"
  by (simp add: parse_arguments_def initial_config_def)

text \<open>
  C8. The claim: two termination triggers in immediate succession release the
  connection and the table exactly once each. The code when the second trigger arrives
  after the first invocation of \<open>shutdown\<close> has called \<open>redisFree\<close> and before it has
  called \<open>exit\<close>: the global pointer is still set, and \<open>redisFree\<close> is called on
  the same context a second time.
\<close>

theorem second_trigger_frees_again:
  "trigger (shutdown_steps 1 running) =
     \<lparr>global_redis_context = Some 1, global_consumer_state = Some 2,
      redisFree_calls = [1, 1], freeConsumerState_calls = [2],
      printed = [CleaningUpContext, CleaningUpContext, CleaningUpState],
      exit_status = Some 0\<rparr>"
  by (simp add: trigger_def shutdown_def free_context_def free_state_def running_def)

text \<open>
  C9. The claim: a first reply to \<open>SUBSCRIBE\<close> of any other shape than an
  acknowledgment naming the channel is fatal. The code at an error reply of the server
  (a reply object, \<open>err = 0\<close>), and at an integer reply: nothing is printed and \<open>main\<close>
  goes on to the read loop.
\<close>

theorem error_reply_to_subscribe_accepted:
  "subscribe (example_library (Some (REDIS_REPLY_ERROR ''NOAUTH Authentication required.'')) 0)
     connected = (Inr connected, []) \<and>
   startup (example_library (Some (REDIS_REPLY_INTEGER 0)) 0) (Some connected) True 100 =
     (Inr \<lparr>conn = connected, reader = [], consumer_state = createConsumerState,
           start_time = 100, processed_messages = 0\<rparr>, [])"
  by (simp add: startup_def subscribe_def example_library_def connected_def)

text \<open>
  C10, as stated, fails when the table is full: the first message is forwarded, its
  identifier is not stored, and the message with the other identifier is forwarded too.
\<close>

theorem full_table_forwards_both:
  \<open>processMessage (example_library (Some (REDIS_REPLY_STRING ''1-0'')) 0) connected full_table
      [] [] (Some payload_1) 2 =
     (connected, full_table,
      [ReceivedMessage (Some payload_1), ParsedMessageId ''11111111-1111-1111-1111-111111111111'',
       ProcessedMessage ''{"message_id":"11111111-1111-1111-1111-111111111111","consumer_id":2}'',
       RedisCommand [Text ''XADD'', Text ''messages:processed'', Text ''*'', Text ''message_id'',
                     Text ''11111111-1111-1111-1111-111111111111'', Text ''consumer_id'', Decimal 2],
       WarningLimitReached]) \<and>
   processMessage (example_library (Some (REDIS_REPLY_STRING ''1-0'')) 0) connected full_table
      [] [] (Some payload_2) 2 =
     (connected, full_table,
      [ReceivedMessage (Some payload_2), ParsedMessageId ''11111111-1111-1111-1111-111111111111'',
       ProcessedMessage ''{"message_id":"11111111-1111-1111-1111-111111111111","consumer_id":2}'',
       RedisCommand [Text ''XADD'', Text ''messages:processed'', Text ''*'', Text ''message_id'',
                     Text ''11111111-1111-1111-1111-111111111111'', Text ''consumer_id'', Decimal 2],
       WarningLimitReached])\<close>
  by (simp add: processMessage_def parseMessage_def json_defs table_defs example_defs xadd_def
        STREAM_KEY_def full_table_def scan_iff)

text \<open>
  C10, amended. \<open>parseMessage\<close> keeps the first 36 characters of the identifier. When
  two messages carry identifiers with the same first 36 characters, the first message
  was forwarded (its \<open>XADD\<close> was sent and came back with a reply and without a
  connection error) while the table had room, and the stored copy is terminated
  (residue \<open>[]\<close>), then the second message is skipped: nothing is sent and the table is
  unchanged.
\<close>

theorem truncated_identifiers_collide:
  assumes id1: "json_object_get (loads lib m1) ''message_id'' = Some (JSON_STRING id1)"
      and id2: "json_object_get (loads lib m2) ''message_id'' = Some (JSON_STRING id2)"
      and same: "take 36 id1 = take 36 id2"
      and room: "processed_message_count state < MAX_PROCESSED_MSGS"
      and first: "processMessage lib c state slot_a [] m1 cid = (c1, state1, trace1)"
      and sent: "RedisCommand (xadd (take 36 id1) cid) \<in> set trace1"
      and replied: "fst (redisCommand lib c (xadd (take 36 id1) cid)) \<noteq> None"
      and no_error: "err c1 = 0"
  shows "parseMessage lib m1 slot_a = (0, take 36 id1, []) \<and>
         parseMessage lib m2 slot_b = (0, take 36 id1, []) \<and>
         processMessage lib c1 state1 slot_b residue_b m2 cid_b =
           (c1, state1,
            [ReceivedMessage m2, ParsedMessageId (take 36 id1), SkippingProcessed cid_b (take 36 id1)])"
proof -
  have p1: "parseMessage lib m1 slot_a = (0, take 36 id1, [])"
    using parseMessage_string[OF id1] .
  have p2: "parseMessage lib m2 slot_b = (0, take 36 id1, [])"
    using parseMessage_string[OF id2] same by simp
  have novel: "isMessageProcessed state (take 36 id1) = 0"
  proof (rule ccontr)
    assume "isMessageProcessed state (take 36 id1) \<noteq> 0"
    then have "isMessageProcessed state (take 36 id1) = 1"
      by (simp add: isMessageProcessed_def scan_iff split: if_splits)
    with first have "trace1 = [ReceivedMessage m1, ParsedMessageId (take 36 id1),
                               SkippingProcessed cid (take 36 id1)]"
      by (simp add: processMessage_def p1)
    with sent show False by simp
  qed
  have state1: "state1 = state\<lparr>processed_message_ids := processed_message_ids state @ [take 36 id1]\<rparr>"
    using processMessage_decoded[OF p1 novel, where c = c and residue = "[]" and cid = cid]
      first sent replied no_error room
    by (auto simp: addProcessedMessage_def split: option.splits if_splits)
  have found: "isMessageProcessed state1 (take 36 id1) = 1"
    by (simp add: state1 isMessageProcessed_def scan_append)
  have "processMessage lib c1 state1 slot_b residue_b m2 cid_b =
           (c1, state1,
            [ReceivedMessage m2, ParsedMessageId (take 36 id1), SkippingProcessed cid_b (take 36 id1)])"
    by (simp add: processMessage_def p2 found)
  with p1 p2 show ?thesis by simp
qed

theorem truncated_identifiers_collide_witness:
  \<open>processMessage (example_library (Some (REDIS_REPLY_STRING ''1-0'')) 0) connected
      createConsumerState [] [] (Some payload_1) 2 =
     (connected, \<lparr>processed_message_ids = [''11111111-1111-1111-1111-111111111111'']\<rparr>,
      [ReceivedMessage (Some payload_1), ParsedMessageId ''11111111-1111-1111-1111-111111111111'',
       ProcessedMessage ''{"message_id":"11111111-1111-1111-1111-111111111111","consumer_id":2}'',
       RedisCommand (xadd ''11111111-1111-1111-1111-111111111111'' 2)]) \<and>
   processMessage (example_library (Some (REDIS_REPLY_STRING ''1-0'')) 0) connected
      \<lparr>processed_message_ids = [''11111111-1111-1111-1111-111111111111'']\<rparr> ''stale'' ''?''
      (Some payload_2) 2 =
     (connected, \<lparr>processed_message_ids = [''11111111-1111-1111-1111-111111111111'']\<rparr>,
      [ReceivedMessage (Some payload_2), ParsedMessageId ''11111111-1111-1111-1111-111111111111'',
       SkippingProcessed 2 ''11111111-1111-1111-1111-111111111111''])\<close>
proof -
  let ?L = "example_library (Some (REDIS_REPLY_STRING ''1-0'')) 0"
  let ?u = "''11111111-1111-1111-1111-111111111111''"
  have id1: "json_object_get (loads ?L (Some payload_1)) ''message_id'' =
               Some (JSON_STRING ''11111111-1111-1111-1111-111111111111-1'')"
    by (simp add: json_defs example_defs)
  have id2: "json_object_get (loads ?L (Some payload_2)) ''message_id'' =
               Some (JSON_STRING ''11111111-1111-1111-1111-111111111111-2'')"
    by (simp add: json_defs example_defs)
  have same: "take 36 ''11111111-1111-1111-1111-111111111111-1'' =
              take 36 ''11111111-1111-1111-1111-111111111111-2''"
    by simp
  have t: "take 36 ''11111111-1111-1111-1111-111111111111-1'' = ?u"
    by simp
  have room: "processed_message_count createConsumerState < MAX_PROCESSED_MSGS"
    by (simp add: table_defs)
  have first: "processMessage ?L connected createConsumerState [] [] (Some payload_1) 2 =
     (connected, \<lparr>processed_message_ids = [?u]\<rparr>,
      [ReceivedMessage (Some payload_1), ParsedMessageId ?u,
       ProcessedMessage ''{\"message_id\":\"11111111-1111-1111-1111-111111111111\",\"consumer_id\":2}'',
       RedisCommand (xadd ?u 2)])"
    by (simp add: processMessage_def parseMessage_def json_defs table_defs example_defs)
  have sent: "RedisCommand (xadd (take 36 ''11111111-1111-1111-1111-111111111111-1'') 2) \<in>
                set [ReceivedMessage (Some payload_1), ParsedMessageId ?u,
       ProcessedMessage ''{\"message_id\":\"11111111-1111-1111-1111-111111111111\",\"consumer_id\":2}'',
       RedisCommand (xadd ?u 2)]"
    by simp
  have replied: "fst (redisCommand ?L connected (xadd (take 36 ''11111111-1111-1111-1111-111111111111-1'') 2)) \<noteq> None"
    by (simp add: example_defs)
  have no_error: "err connected = 0"
    by (simp add: connected_def)
  from truncated_identifiers_collide[OF id1 id2 same room first sent replied no_error,
         where slot_b = "''stale''" and residue_b = "''?''" and cid_b = 2]
  have "processMessage ?L connected \<lparr>processed_message_ids = [?u]\<rparr> ''stale'' ''?'' (Some payload_2) 2 =
     (connected, \<lparr>processed_message_ids = [?u]\<rparr>,
      [ReceivedMessage (Some payload_2), ParsedMessageId ?u, SkippingProcessed 2 ?u])"
    by (simp only: t)
  with first show ?thesis by simp
qed

end
